theory Spec2Isabelle
  imports Complex_Main
begin

section \<open>JavaScript numbers\<close>

text \<open>
  The calculator computes with JavaScript numbers. A number is modelled as a finiteNum
  value, negative zero, one of the two infinities or NaN. Finite values are exact
  rationals: the rounding of binary64 arithmetic, overflow and underflow are not part of
  this model, the special values and their arithmetic are. \<open>Fin 0\<close> is the positive
  zero.
\<close>

datatype jsnum = Fin rat | NegZero | PInf | NInf | NaN

fun isZero :: "jsnum \<Rightarrow> bool" where
  "isZero (Fin q) = (q = 0)"
| "isZero NegZero = True"
| "isZero _ = False"

fun isInf :: "jsnum \<Rightarrow> bool" where
  "isInf PInf = True"
| "isInf NInf = True"
| "isInf _ = False"

fun isFinite :: "jsnum \<Rightarrow> bool" where
  "isFinite (Fin q) = True"
| "isFinite NegZero = True"
| "isFinite _ = False"

text \<open>The sign bit; it is only read on numbers other than NaN.\<close>

fun signBit :: "jsnum \<Rightarrow> bool" where
  "signBit (Fin q) = (q < 0)"
| "signBit NegZero = True"
| "signBit PInf = False"
| "signBit NInf = True"
| "signBit NaN = False"

fun valof :: "jsnum \<Rightarrow> rat" where
  "valof (Fin q) = q"
| "valof _ = 0"

definition signedInf :: "bool \<Rightarrow> jsnum" where
  "signedInf s = (if s then NInf else PInf)"

text \<open>A finiteNum result; when it is zero, the flag chooses the negative zero.\<close>

definition finiteNum :: "bool \<Rightarrow> rat \<Rightarrow> jsnum" where
  "finiteNum s q = (if q = 0 \<and> s then NegZero else Fin q)"

text \<open>Unary minus.\<close>

fun js_neg :: "jsnum \<Rightarrow> jsnum" where
  "js_neg (Fin q) = finiteNum True (- q)"
| "js_neg NegZero = Fin 0"
| "js_neg PInf = NInf"
| "js_neg NInf = PInf"
| "js_neg NaN = NaN"

text \<open>
  The binary operators \<open>+\<close>, \<open>-\<close>, \<open>*\<close> and \<open>/\<close> on numbers. None of them throws:
  an undefined result is NaN, a division of a non-zero number by zero is an infinity.
\<close>

definition js_add :: "jsnum \<Rightarrow> jsnum \<Rightarrow> jsnum" where
  "js_add a b =
     (if a = NaN \<or> b = NaN then NaN
      else if isInf a then (if isInf b \<and> a \<noteq> b then NaN else a)
      else if isInf b then b
      else finiteNum (isZero a \<and> isZero b \<and> signBit a \<and> signBit b) (valof a + valof b))"

definition js_sub :: "jsnum \<Rightarrow> jsnum \<Rightarrow> jsnum" where
  "js_sub a b = js_add a (js_neg b)"

definition js_mul :: "jsnum \<Rightarrow> jsnum \<Rightarrow> jsnum" where
  "js_mul a b =
     (if a = NaN \<or> b = NaN then NaN
      else if isInf a \<or> isInf b
        then (if isZero a \<or> isZero b then NaN else signedInf (signBit a \<noteq> signBit b))
      else finiteNum (signBit a \<noteq> signBit b) (valof a * valof b))"

definition js_div :: "jsnum \<Rightarrow> jsnum \<Rightarrow> jsnum" where
  "js_div a b =
     (if a = NaN \<or> b = NaN then NaN
      else if isInf a then (if isInf b then NaN else signedInf (signBit a \<noteq> signBit b))
      else if isInf b then finiteNum (signBit a \<noteq> signBit b) 0
      else if isZero b then (if isZero a then NaN else signedInf (signBit a \<noteq> signBit b))
      else finiteNum (signBit a \<noteq> signBit b) (valof a / valof b))"

section \<open>JavaScript values and truthiness\<close>

text \<open>
  The values the row validator handles: \<open>undefined\<close>, a number or a boolean. An
  optional field of a row is \<open>None\<close> when it is \<open>undefined\<close>.
\<close>

datatype jsval = JUndefined | JNum jsnum | JBool bool

fun fieldVal :: "jsnum option \<Rightarrow> jsval" where
  "fieldVal None = JUndefined"
| "fieldVal (Some x) = JNum x"

text \<open>ToBoolean: \<open>undefined\<close>, both zeros and NaN are falsy, every other number is truthy.\<close>

fun truthy :: "jsval \<Rightarrow> bool" where
  "truthy JUndefined = False"
| "truthy (JNum x) = (\<not> isZero x \<and> x \<noteq> NaN)"
| "truthy (JBool b) = b"

text \<open>ToNumber on an optional field: \<open>undefined\<close> becomes NaN.\<close>

fun num :: "jsnum option \<Rightarrow> jsnum" where
  "num None = NaN"
| "num (Some x) = x"

text \<open>The global \<open>isNaN\<close>, which converts its argument to a number first.\<close>

definition isNaN :: "jsnum option \<Rightarrow> bool" where
  "isNaN v = (num v = NaN)"

text \<open>\<open>a && b\<close> is \<open>a\<close> when \<open>a\<close> is falsy and \<open>b\<close> otherwise.\<close>

definition js_and :: "jsval \<Rightarrow> jsval \<Rightarrow> jsval" where
  "js_and a b = (if truthy a then b else a)"

section \<open>Number formatting\<close>

fun digitChar :: "nat \<Rightarrow> char" where
  "digitChar n = ''0123456789'' ! (n mod 10)"

text \<open>The decimal digits of a natural number, most significant first.\<close>

function decimal :: "nat \<Rightarrow> string" where
  "decimal n = (if n < 10 then [digitChar n] else decimal (n div 10) @ [digitChar n])"
  by pat_completeness auto
termination
  by (relation "measure (\<lambda>n. n)") auto

declare decimal.simps [simp del]

text \<open>
  The integer \<open>n\<close> for which \<open>n / 10^f\<close> is closest to \<open>x\<close>, the larger one of two
  equally close, for \<open>x \<ge> 0\<close>.
\<close>

definition nearestScaled :: "nat \<Rightarrow> rat \<Rightarrow> nat" where
  "nearestScaled f x = nat \<lfloor>x * 10 ^ f + 1 / 2\<rfloor>"

text \<open>
  \<open>Number.prototype.toFixed\<close> on a non-negative finite number below \<open>10^21\<close>: the digits
  of the nearest scaled integer, padded with zeros to at least \<open>f + 1\<close> digits, with the
  decimal point before the last \<open>f\<close> digits.
\<close>

definition fixedDigits :: "nat \<Rightarrow> rat \<Rightarrow> string" where
  "fixedDigits f x =
     (let m = decimal (nearestScaled f x) in
      if f = 0 then m
      else
        let m' = (if length m \<le> f then replicate (f + 1 - length m) CHR ''0'' @ m else m);
            k = length m'
        in take (k - f) m' @ ''.'' @ drop (k - f) m')"

text \<open>
  \<open>toFixed\<close> never throws for the digit counts used here. NaN and the infinities are
  printed by name. A negative number is printed as a minus sign and its magnitude; the
  negative zero is not less than zero and gets no sign. A magnitude of \<open>10^21\<close> or more
  is printed by the built-in number-to-string conversion, which is the parameter
  \<open>big\<close> here.
\<close>

fun toFixed :: "(rat \<Rightarrow> string) \<Rightarrow> nat \<Rightarrow> jsnum \<Rightarrow> string" where
  "toFixed big f NaN = ''NaN''"
| "toFixed big f PInf = ''Infinity''"
| "toFixed big f NInf = ''-Infinity''"
| "toFixed big f NegZero = fixedDigits f 0"
| "toFixed big f (Fin q) =
     (if q < 0 then ''-'' else []) @
     (if 10 ^ 21 \<le> \<bar>q\<bar> then big \<bar>q\<bar> else fixedDigits f \<bar>q\<bar>)"

text \<open>
  \<^verbatim>\<open>
  const formatRowValue = (val: number) => {
    if (val === undefined || isNaN(val)) {
      return '';
    }
    return val.toFixed(1);
  }
  \<close>
\<close>

definition formatRowValue :: "(rat \<Rightarrow> string) \<Rightarrow> jsnum option \<Rightarrow> string" where
  "formatRowValue big val =
     (if val = None \<or> isNaN val then [] else toFixed big 1 (num val))"

text \<open>\<open>Array.prototype.join\<close> on strings.\<close>

fun join :: "string \<Rightarrow> string list \<Rightarrow> string" where
  "join sep [] = []"
| "join sep [x] = x"
| "join sep (x # y # ys) = x @ sep @ join sep (y # ys)"

section \<open>Rows\<close>

text \<open>
  \<^verbatim>\<open>
  type InjectorTestRow = {
    injections?: number; pulseWidth?: number; totalMass?: number;
    includeInRegression: boolean; id: string;
  };
  type InjectorTestRowCleaned = {
    injections: number; pulseWidth: number; totalMass: number;
    includeInRegression: boolean;
  };
  \<close>
  A cleaned row has the fields of a row without the id. The type annotations are erased
  at run time, so a cleaned field holds whatever the row's field held; every use of a
  field in arithmetic converts it with \<open>num\<close>.
\<close>

record InjectorTestRowCleaned =
  injections :: "jsnum option"
  pulseWidth :: "jsnum option"
  totalMass :: "jsnum option"
  includeInRegression :: bool

record InjectorTestRow = InjectorTestRowCleaned +
  row_id :: string

text \<open>
  \<^verbatim>\<open>
  let nextId = 0;
  const makeRow = (): InjectorTestRow => ({ id: 'rowInput-' + nextId++, includeInRegression: true });
  \<close>
  The counter is passed in and returned incremented.
\<close>

definition makeRow :: "nat \<Rightarrow> InjectorTestRow \<times> nat" where
  "makeRow nextId =
     (\<lparr>injections = None, pulseWidth = None, totalMass = None,
       includeInRegression = True, row_id = ''rowInput-'' @ decimal nextId\<rparr>,
      nextId + 1)"

text \<open>
  \<^verbatim>\<open>
  const rowIsValid = (row: InjectorTestRow) =>
    row.injections && row.pulseWidth && row.totalMass &&
    !isNaN(row.injections) && !isNaN(row.pulseWidth) && !isNaN(row.totalMass);
  \<close>
  The chain associates to the left; its value is the first falsy operand, or the last
  operand.
\<close>

definition rowIsValid :: "'a InjectorTestRowCleaned_scheme \<Rightarrow> jsval" where
  "rowIsValid row =
     js_and (js_and (js_and (js_and (js_and
       (fieldVal (injections row))
       (fieldVal (pulseWidth row)))
       (fieldVal (totalMass row)))
       (JBool (\<not> isNaN (injections row))))
       (JBool (\<not> isNaN (pulseWidth row))))
       (JBool (\<not> isNaN (totalMass row)))"

section \<open>The row store and its handlers\<close>

datatype error = TypeError

text \<open>
  \<^verbatim>\<open>
  const handleInputChange = useCallback((index, mutateRow, value: string) => {
    const newRows = [...rows];
    mutateRow(newRows[index], parseFloat(value));
    setRows(newRows);
  }, [rows]);
  \<close>
  The handler is modelled on the number that the built-in \<open>parseFloat\<close> returns for
  the input's text (NaN when the text is not a number). The three mutators are the
  arrow functions of the three inputs. Out of range, \<open>newRows[index]\<close> is
  \<open>undefined\<close> and the assignment to its field throws a TypeError.
\<close>

definition setInjections :: "InjectorTestRow \<Rightarrow> jsnum \<Rightarrow> InjectorTestRow" where
  "setInjections r v = r\<lparr>injections := Some v\<rparr>"

definition setPulseWidth :: "InjectorTestRow \<Rightarrow> jsnum \<Rightarrow> InjectorTestRow" where
  "setPulseWidth r v = r\<lparr>pulseWidth := Some v\<rparr>"

definition setTotalMass :: "InjectorTestRow \<Rightarrow> jsnum \<Rightarrow> InjectorTestRow" where
  "setTotalMass r v = r\<lparr>totalMass := Some v\<rparr>"

definition handleInputChange ::
  "nat \<Rightarrow> (InjectorTestRow \<Rightarrow> jsnum \<Rightarrow> InjectorTestRow) \<Rightarrow> jsnum \<Rightarrow>
   InjectorTestRow list \<Rightarrow> error + InjectorTestRow list" where
  "handleInputChange index mutateRow v rs =
     (if index < length rs then Inr (rs[index := mutateRow (rs ! index) v])
      else Inl TypeError)"

text \<open>
  \<^verbatim>\<open>
  const handleInclude = useCallback((index: number, value: boolean) => {
    const newRows = [...rows];
    newRows[index].includeInRegression = value;
    setRows(newRows);
  }, [rows]);
  \<close>
\<close>

definition handleInclude ::
  "nat \<Rightarrow> bool \<Rightarrow> InjectorTestRow list \<Rightarrow> error + InjectorTestRow list" where
  "handleInclude index v rs =
     (if index < length rs
      then Inr (rs[index := (rs ! index)\<lparr>includeInRegression := v\<rparr>])
      else Inl TypeError)"

text \<open>
  \<^verbatim>\<open>
  const removeRow = useCallback((index: number) => {
    const newRows = rows.filter((_, i) => i !== index);
    setRows(newRows);
  }, [rows]);
  \<close>
\<close>

definition removeRow :: "nat \<Rightarrow> InjectorTestRow list \<Rightarrow> InjectorTestRow list" where
  "removeRow index rs =
     map snd (filter (\<lambda>(i, _). i \<noteq> index) (enumerate 0 rs))"

text \<open>The state of the application: the rows and the module's id counter.\<close>

record AppState =
  rows :: "InjectorTestRow list"
  nextId :: nat

text \<open>
  \<^verbatim>\<open>
  const addRow = useCallback(() => {
    setRows([...rows, makeRow()]);
  }, [rows]);
  \<close>
\<close>

definition addRow :: "AppState \<Rightarrow> AppState" where
  "addRow s = (let (r, n) = makeRow (nextId s) in \<lparr>rows = rows s @ [r], nextId = n\<rparr>)"

text \<open>\<open>useState<InjectorTestRow[]>([makeRow()])\<close> with the counter at its initial 0.\<close>

definition initialState :: AppState where
  "initialState = (let (r, n) = makeRow 0 in \<lparr>rows = [r], nextId = n\<rparr>)"

text \<open>\<open>const isLastRow = index === rows.length - 1\<close>\<close>

definition isLastRow :: "nat \<Rightarrow> InjectorTestRow list \<Rightarrow> bool" where
  "isLastRow index rs = (int index = int (length rs) - 1)"

text \<open>
  \<^verbatim>\<open>
  onBlur={() => {
    if (isLastRow && rowIsValid(row)) {
      addRow();
    }
  }}
  \<close>
  The blur handler of the total mass input of the row at \<open>index\<close>.
\<close>

definition onBlur :: "nat \<Rightarrow> AppState \<Rightarrow> AppState" where
  "onBlur index s =
     (if isLastRow index (rows s) \<and> truthy (rowIsValid (rows s ! index)) then addRow s
      else s)"

text \<open>
  \<^verbatim>\<open>
  {isLastRow
    ? <button onClick={addRow} ...>Add Row</button>
    : <button onClick={() => removeRow(index)} ...>&times;</button>}
  \<close>
  The one button of the row at \<open>index\<close>.
\<close>

definition onClick :: "nat \<Rightarrow> AppState \<Rightarrow> AppState" where
  "onClick index s =
     (if isLastRow index (rows s) then addRow s
      else s\<lparr>rows := removeRow index (rows s)\<rparr>)"

text \<open>
  The events of the rendered table. Each row of \<open>rows\<close> is rendered with three inputs,
  a check box and one button, so an event names the index of a rendered row; an event on
  a row that is not rendered does not exist (\<open>None\<close>).
\<close>

datatype event =
    ChangeInjections nat jsnum
  | ChangePulseWidth nat jsnum
  | ChangeTotalMass nat jsnum
  | BlurTotalMass nat
  | CheckInclude nat bool
  | ClickButton nat

fun eventIndex :: "event \<Rightarrow> nat" where
  "eventIndex (ChangeInjections i v) = i"
| "eventIndex (ChangePulseWidth i v) = i"
| "eventIndex (ChangeTotalMass i v) = i"
| "eventIndex (BlurTotalMass i) = i"
| "eventIndex (CheckInclude i b) = i"
| "eventIndex (ClickButton i) = i"

definition setRows :: "AppState \<Rightarrow> error + InjectorTestRow list \<Rightarrow> AppState option" where
  "setRows s r = (case r of Inl e \<Rightarrow> None | Inr rs \<Rightarrow> Some (s\<lparr>rows := rs\<rparr>))"

fun handle :: "event \<Rightarrow> AppState \<Rightarrow> AppState option" where
  "handle (ChangeInjections i v) s = setRows s (handleInputChange i setInjections v (rows s))"
| "handle (ChangePulseWidth i v) s = setRows s (handleInputChange i setPulseWidth v (rows s))"
| "handle (ChangeTotalMass i v) s = setRows s (handleInputChange i setTotalMass v (rows s))"
| "handle (BlurTotalMass i) s = Some (onBlur i s)"
| "handle (CheckInclude i b) s = setRows s (handleInclude i b (rows s))"
| "handle (ClickButton i) s = Some (onClick i s)"

definition fire :: "event \<Rightarrow> AppState \<Rightarrow> AppState option" where
  "fire ev s = (if eventIndex ev < length (rows s) then handle ev s else None)"

fun run :: "event list \<Rightarrow> AppState \<Rightarrow> AppState option" where
  "run [] s = Some s"
| "run (ev # evs) s = (case fire ev s of None \<Rightarrow> None | Some s' \<Rightarrow> run evs s')"

section \<open>The regression\<close>

text \<open>
  The value \<open>regression.linear\<close> returns, as far as the application reads it:
  \<open>equation[0]\<close> and \<open>equation[1]\<close>, and \<open>predict(x)\<close>, a pair whose second
  component is the predicted value.
\<close>

record FitResult =
  equation :: "jsnum \<times> jsnum"
  predict :: "jsnum \<Rightarrow> jsnum \<times> jsnum"

text \<open>
  Modelled from the spec: \<open>regression.linear\<close> comes from the package \<open>regression\<close>,
  which the application imports and whose code is not among the sources. The spec (4.4)
  gives its result: the ordinary least-squares line \<open>y = slope * x + intercept\<close> through
  the points, in closed form from the means and the cross-products, with no special
  case, so that a zero variance of \<open>x\<close> is a division by zero in it. It is computed
  here in the arithmetic of JavaScript numbers. The sum of a list of numbers is taken
  from the left, starting at zero.
\<close>

definition js_sum :: "jsnum list \<Rightarrow> jsnum" where
  "js_sum xs = foldl js_add (Fin 0) xs"

text \<open>Modelled from the spec: the mean of the spec's closed form, sum over count.\<close>

definition mean :: "jsnum list \<Rightarrow> jsnum" where
  "mean xs = js_div (js_sum xs) (Fin (of_nat (length xs)))"

text \<open>
  Modelled from the spec: the result for a given slope and intercept. \<open>equation\<close> holds
  the two, and \<open>predict(x)\<close> evaluates the fitted line at \<open>x\<close> (spec 4.4), for any
  \<open>x\<close>.
\<close>

definition fitLine :: "jsnum \<Rightarrow> jsnum \<Rightarrow> FitResult" where
  "fitLine slope intercept =
     \<lparr>equation = (slope, intercept),
      predict = (\<lambda>x. (x, js_add (js_mul slope x) intercept))\<rparr>"

text \<open>
  Modelled from the spec: \<open>regression.linear\<close> itself. The slope is the sum of the
  cross-products of the deviations from the means over the sum of the squared deviations
  of \<open>x\<close>; the intercept is the mean of \<open>y\<close> minus the slope times the mean of \<open>x\<close>.
\<close>

definition linear :: "(jsnum \<times> jsnum) list \<Rightarrow> FitResult" where
  "linear pts =
     (let mx = mean (map fst pts);
          my = mean (map snd pts);
          sxy = js_sum (map (\<lambda>(x, y). js_mul (js_sub x mx) (js_sub y my)) pts);
          sxx = js_sum (map (\<lambda>(x, y). js_mul (js_sub x mx) (js_sub x mx)) pts);
          slope = js_div sxy sxx;
          intercept = js_sub my (js_mul slope mx)
      in fitLine slope intercept)"

section \<open>The calculator\<close>

text \<open>
  \<^verbatim>\<open>
  const validRows = useMemo((): InjectorTestRowCleaned[] => {
    return rows
      .filter(rowIsValid)
      .map(r => ({ injections: r.injections!, pulseWidth: r.pulseWidth!, totalMass: r.totalMass!,
                   includeInRegression: r.includeInRegression } as InjectorTestRowCleaned));
  }, [rows]);
  \<close>
\<close>

definition cleaned :: "InjectorTestRow \<Rightarrow> InjectorTestRowCleaned" where
  "cleaned r =
     \<lparr>injections = injections r, pulseWidth = pulseWidth r, totalMass = totalMass r,
      includeInRegression = includeInRegression r\<rparr>"

definition validRows :: "InjectorTestRow list \<Rightarrow> InjectorTestRowCleaned list" where
  "validRows rs = map cleaned (filter (\<lambda>r. truthy (rowIsValid r)) rs)"

text \<open>
  \<^verbatim>\<open>
  const regressionResult = regression.linear(
    validRows
      .filter(r => r.includeInRegression)
      .map(d => [d.pulseWidth, 1e3 * d.totalMass / d.injections])
  );
  \<close>
\<close>

definition regressionPoint :: "'a InjectorTestRowCleaned_scheme \<Rightarrow> jsnum \<times> jsnum" where
  "regressionPoint d =
     (num (pulseWidth d), js_div (js_mul (Fin 1000) (num (totalMass d))) (num (injections d)))"

definition regressionInput :: "InjectorTestRow list \<Rightarrow> (jsnum \<times> jsnum) list" where
  "regressionInput rs = map regressionPoint (filter includeInRegression (validRows rs))"

definition regressionResult :: "InjectorTestRow list \<Rightarrow> FitResult" where
  "regressionResult rs = linear (regressionInput rs)"

text \<open>
  \<^verbatim>\<open>
  const flowRate = regressionResult.equation[0];
  const deadtime = -regressionResult.equation[1] / flowRate;
  \<close>
\<close>

definition flowRate :: "FitResult \<Rightarrow> jsnum" where
  "flowRate fit = fst (equation fit)"

definition deadtime :: "FitResult \<Rightarrow> jsnum" where
  "deadtime fit = js_div (js_neg (snd (equation fit))) (flowRate fit)"

text \<open>
  \<^verbatim>\<open>
  const dataForPlot = validRows.map(row => {
    const massPerPulse = row.totalMass / row.injections;

    const actualMassMg = 1e3 * row.totalMass / row.injections;
    const modelMass = regressionResult.predict(row.pulseWidth)[1];
    const pctError = 100 * (modelMass - actualMassMg) / actualMassMg;

    // small pulse correction math
    const modelPulse = 1e3 * massPerPulse / flowRate;
    const smallPulseAdder = row.pulseWidth - deadtime - modelPulse;

    return { pulseWidth: row.pulseWidth, massPerPulse: 1e3 * massPerPulse, err: pctError,
             modelMass, modelPulse, smallPulseAdder };
  });
  \<close>
\<close>

record PlotPoint =
  plot_pulseWidth :: "jsnum option"
  massPerPulse :: jsnum
  err :: jsnum
  modelMass :: jsnum
  modelPulse :: jsnum
  smallPulseAdder :: jsnum

definition plotPoint :: "FitResult \<Rightarrow> 'a InjectorTestRowCleaned_scheme \<Rightarrow> PlotPoint" where
  "plotPoint fit row =
     (let massPerPulse = js_div (num (totalMass row)) (num (injections row));
          actualMassMg = js_div (js_mul (Fin 1000) (num (totalMass row))) (num (injections row));
          modelMass = snd (predict fit (num (pulseWidth row)));
          pctError = js_div (js_mul (Fin 100) (js_sub modelMass actualMassMg)) actualMassMg;
          modelPulse = js_div (js_mul (Fin 1000) massPerPulse) (flowRate fit);
          smallPulseAdder = js_sub (js_sub (num (pulseWidth row)) (deadtime fit)) modelPulse
      in \<lparr>plot_pulseWidth = pulseWidth row,
          massPerPulse = js_mul (Fin 1000) massPerPulse,
          err = pctError,
          modelMass = modelMass,
          modelPulse = modelPulse,
          smallPulseAdder = smallPulseAdder\<rparr>)"

definition dataForPlot :: "FitResult \<Rightarrow> InjectorTestRow list \<Rightarrow> PlotPoint list" where
  "dataForPlot fit rs = map (plotPoint fit) (validRows rs)"

text \<open>
  \<^verbatim>\<open>
  const tableRows = useMemo(() => rows.map((row, index) => {
    const actualMassMg = 1e3 * row.totalMass! / row.injections!;
    const modelMass = regressionResult.predict(row.pulseWidth!)[1];
    const pctError = 100 * (modelMass - actualMassMg) / actualMassMg;
    const isLastRow = index === rows.length - 1;
    return <div ...> ...
      <div>{formatRowValue(actualMassMg)}</div>
      <div>{formatRowValue(modelMass)}</div>
      <div>{formatRowValue(pctError)}</div>
      {isLastRow ? <button onClick={addRow} ...> : <button onClick={() => removeRow(index)} ...>}
    </div>;
  }), [...]);
  \<close>
  Of a rendered row, the three computed cells and which button it carries.
\<close>

record TableRow =
  massCell :: string
  modelCell :: string
  errCell :: string
  hasAddButton :: bool

definition tableRow ::
  "(rat \<Rightarrow> string) \<Rightarrow> FitResult \<Rightarrow> InjectorTestRow list \<Rightarrow> nat \<Rightarrow> InjectorTestRow \<Rightarrow> TableRow" where
  "tableRow big fit rs index row =
     (let actualMassMg = js_div (js_mul (Fin 1000) (num (totalMass row))) (num (injections row));
          modelMass = snd (predict fit (num (pulseWidth row)));
          pctError = js_div (js_mul (Fin 100) (js_sub modelMass actualMassMg)) actualMassMg
      in \<lparr>massCell = formatRowValue big (Some actualMassMg),
          modelCell = formatRowValue big (Some modelMass),
          errCell = formatRowValue big (Some pctError),
          hasAddButton = isLastRow index rs\<rparr>)"

definition tableRows :: "(rat \<Rightarrow> string) \<Rightarrow> FitResult \<Rightarrow> InjectorTestRow list \<Rightarrow> TableRow list" where
  "tableRows big fit rs = map (\<lambda>(index, row). tableRow big fit rs index row) (enumerate 0 rs)"

text \<open>
  \<^verbatim>\<open>
  <p><strong>Flow Rate:</strong> {flowRate.toFixed(2)} g/s = {(83.333 * flowRate).toFixed(1)} cc/min</p>
  <p><strong>Deadtime:</strong> {deadtime.toFixed(2)} ms</p>
  ...
  <div>{dataForPlot.map(c => c.smallPulseAdder.toFixed(3)).join(', ')}</div>
  <div>{dataForPlot.map(c => c.modelPulse.toFixed(3)).join(', ')}</div>
  \<close>
\<close>

definition flowRateCcPerMin :: "FitResult \<Rightarrow> jsnum" where
  "flowRateCcPerMin fit = js_mul (Fin (83333 / 1000)) (flowRate fit)"

definition flowRateText :: "(rat \<Rightarrow> string) \<Rightarrow> FitResult \<Rightarrow> string" where
  "flowRateText big fit = toFixed big 2 (flowRate fit)"

definition flowRateCcText :: "(rat \<Rightarrow> string) \<Rightarrow> FitResult \<Rightarrow> string" where
  "flowRateCcText big fit = toFixed big 1 (flowRateCcPerMin fit)"

definition deadtimeText :: "(rat \<Rightarrow> string) \<Rightarrow> FitResult \<Rightarrow> string" where
  "deadtimeText big fit = toFixed big 2 (deadtime fit)"

text \<open>The two lines of the small pulse correction table, before and after the join.\<close>

definition smallPulseAdderCells :: "(rat \<Rightarrow> string) \<Rightarrow> PlotPoint list \<Rightarrow> string list" where
  "smallPulseAdderCells big ps = map (\<lambda>c. toFixed big 3 (smallPulseAdder c)) ps"

definition modelPulseCells :: "(rat \<Rightarrow> string) \<Rightarrow> PlotPoint list \<Rightarrow> string list" where
  "modelPulseCells big ps = map (\<lambda>c. toFixed big 3 (modelPulse c)) ps"

definition smallPulseAdderText :: "(rat \<Rightarrow> string) \<Rightarrow> PlotPoint list \<Rightarrow> string" where
  "smallPulseAdderText big ps = join '', '' (smallPulseAdderCells big ps)"

definition modelPulseText :: "(rat \<Rightarrow> string) \<Rightarrow> PlotPoint list \<Rightarrow> string" where
  "modelPulseText big ps = join '', '' (modelPulseCells big ps)"

section \<open>Predicates used in the statements\<close>

text \<open>A field that is defined, is not a zero and is not NaN.\<close>

definition definedNonZeroNotNaN :: "jsnum option \<Rightarrow> bool" where
  "definedNonZeroNotNaN v = (case v of None \<Rightarrow> False | Some x \<Rightarrow> \<not> isZero x \<and> x \<noteq> NaN)"


text \<open>
  The mass per pulse in mg of a row, \<open>1000 * totalMass / injections\<close>, and the input of
  the regression in the words of the spec: the pairs of pulse width and mass per pulse of
  the valid rows that are included in the fit, in the order of the rows.
\<close>

definition massPerPulseMg :: "'a InjectorTestRowCleaned_scheme \<Rightarrow> jsnum" where
  "massPerPulseMg r = js_div (js_mul (Fin 1000) (num (totalMass r))) (num (injections r))"

definition fitInput_spec :: "InjectorTestRow list \<Rightarrow> (jsnum \<times> jsnum) list" where
  "fitInput_spec rs =
     map (\<lambda>r. (num (pulseWidth r), massPerPulseMg r))
       (filter (\<lambda>r. truthy (rowIsValid r) \<and> includeInRegression r) rs)"

text \<open>
  The two rows of the end-to-end scenario: 10 injections of 2 ms with 0.02 g, and 10
  injections of 4 ms with 0.06 g.
\<close>

definition scenarioRows :: "InjectorTestRow list" where
  "scenarioRows =
     [\<lparr>injections = Some (Fin 10), pulseWidth = Some (Fin 2), totalMass = Some (Fin (2 / 100)),
       includeInRegression = True, row_id = ''rowInput-0''\<rparr>,
      \<lparr>injections = Some (Fin 10), pulseWidth = Some (Fin 4), totalMass = Some (Fin (6 / 100)),
       includeInRegression = True, row_id = ''rowInput-1''\<rparr>]"

text \<open>The scenario with its second row excluded from the fit.\<close>

definition scenarioSecondExcluded :: "InjectorTestRow list" where
  "scenarioSecondExcluded =
     [scenarioRows ! 0, (scenarioRows ! 1)\<lparr>includeInRegression := False\<rparr>]"

text \<open>
  Reading a printed number back. A string shows \<open>x\<close> rounded to \<open>f\<close> decimals when it
  is a minus sign iff \<open>x\<close> is negative, then at least one digit, a point and exactly
  \<open>f\<close> digits, and the number these digits denote differs from the magnitude of \<open>x\<close>
  by at most half a unit of the last digit.
\<close>

definition digitValue :: "char \<Rightarrow> nat" where
  "digitValue c = of_char c - 48"

definition isDigit :: "char \<Rightarrow> bool" where
  "isDigit c = (c \<in> set ''0123456789'')"

definition decimalValue :: "string \<Rightarrow> nat" where
  "decimalValue s = foldl (\<lambda>a c. 10 * a + digitValue c) 0 s"

definition roundedTo :: "nat \<Rightarrow> rat \<Rightarrow> string \<Rightarrow> bool" where
  "roundedTo f x s =
     (let body = (if x < 0 then tl s else s);
          k = length body - f;
          ds = take (k - 1) body @ drop k body
      in s = (if x < 0 then ''-'' else []) @ body \<and>
         f + 2 \<le> length body \<and>
         body ! (k - 1) = CHR ''.'' \<and>
         list_all isDigit ds \<and>
         \<bar>of_nat (decimalValue ds) / 10 ^ f - \<bar>x\<bar>\<bar> \<le> 1 / (2 * 10 ^ f))"

section \<open>Facts about the arithmetic\<close>

lemma finiteNum_False [simp]: "finiteNum False q = Fin q"
  by (simp add: finiteNum_def)


lemma isFinite_finiteNum [simp]: "isFinite (finiteNum s q)"
  by (simp add: finiteNum_def)

lemma valof_finiteNum [simp]: "valof (finiteNum s q) = q"
  by (simp add: finiteNum_def)

lemma isZero_finiteNum [simp]: "isZero (finiteNum s q) \<longleftrightarrow> q = 0"
  by (simp add: finiteNum_def)

lemma finiteNum_not_NaN [simp]: "finiteNum s q \<noteq> NaN"
  by (simp add: finiteNum_def)

lemma finiteNum_not_inf [simp]: "\<not> isInf (finiteNum s q)"
  by (simp add: finiteNum_def)

lemma isInf_signedInf [simp]: "isInf (signedInf s)" "signedInf s \<noteq> NaN"
  by (simp_all add: signedInf_def)

lemma js_neg_NaN_iff [simp]: "js_neg x = NaN \<longleftrightarrow> x = NaN"
  by (cases x) (simp_all add: finiteNum_def)

lemma isZero_js_neg [simp]: "isZero (js_neg x) = isZero x"
  by (cases x) (simp_all add: finiteNum_def)

lemma isInf_js_neg [simp]: "isInf (js_neg x) = isInf x"
  by (cases x) (simp_all add: finiteNum_def)

lemma isFinite_js_neg [simp]: "isFinite (js_neg x) = isFinite x"
  by (cases x) (simp_all add: finiteNum_def)

lemma valof_js_neg [simp]: "valof (js_neg x) = - valof x"
  by (cases x) (simp_all add: finiteNum_def)

lemma js_add_Fin: "js_add (Fin x) (Fin y) = Fin (x + y)"
  by (simp add: js_add_def finiteNum_def)

lemma js_sub_Fin: "js_sub (Fin x) (Fin y) = Fin (x - y)"
  by (simp add: js_sub_def js_add_def finiteNum_def)

lemma js_mul_Fin: "js_mul (Fin x) (Fin y) = finiteNum ((x < 0) \<noteq> (y < 0)) (x * y)"
  by (simp add: js_mul_def)

lemma js_div_Fin: "y \<noteq> 0 \<Longrightarrow> js_div (Fin x) (Fin y) = finiteNum ((x < 0) \<noteq> (y < 0)) (x / y)"
  by (simp add: js_div_def)



text \<open>NaN is absorbing.\<close>

lemma js_add_NaN [simp]: "js_add NaN x = NaN" "js_add x NaN = NaN"
  by (simp_all add: js_add_def)

lemma js_sub_NaN [simp]: "js_sub NaN x = NaN" "js_sub x NaN = NaN"
  by (simp_all add: js_sub_def)

lemma js_mul_NaN [simp]: "js_mul NaN x = NaN" "js_mul x NaN = NaN"
  by (simp_all add: js_mul_def)

lemma js_div_NaN [simp]: "js_div NaN x = NaN" "js_div x NaN = NaN"
  by (simp_all add: js_div_def)

section \<open>The validator\<close>

lemma truthy_fieldVal: "truthy (fieldVal v) = definedNonZeroNotNaN v"
  by (cases v) (simp_all add: definedNonZeroNotNaN_def)

lemma definedNonZeroNotNaN_isNaN: "definedNonZeroNotNaN v \<Longrightarrow> \<not> isNaN v"
  by (cases v) (simp_all add: definedNonZeroNotNaN_def isNaN_def)

lemma truthy_rowIsValid:
  "truthy (rowIsValid row) \<longleftrightarrow>
     definedNonZeroNotNaN (injections row) \<and> definedNonZeroNotNaN (pulseWidth row) \<and>
     definedNonZeroNotNaN (totalMass row)"
  by (auto simp: rowIsValid_def js_and_def truthy_fieldVal definedNonZeroNotNaN_isNaN)

text \<open>
  C2 (as stated): a row is valid iff its three fields are defined, non-zero and finite.
  The validator tests for NaN only, so a row with an infinite field passes it: here the
  number of injections is \<open>Infinity\<close>.
\<close>

theorem rowIsValid_infinite_counterexample:
  "truthy (rowIsValid \<lparr>injections = Some PInf, pulseWidth = Some (Fin 1),
      totalMass = Some (Fin 1), includeInRegression = True, row_id = ''rowInput-0''\<rparr>)
   \<and> \<not> isFinite PInf"
  by (simp add: rowIsValid_def js_and_def isNaN_def)

text \<open>
  C2 (amended): the value of \<open>rowIsValid\<close> is truthy iff each of \<open>injections\<close>,
  \<open>pulseWidth\<close> and \<open>totalMass\<close> is defined, is not a zero and is not NaN; the
  infinities pass.
\<close>

theorem rowIsValid_iff:
  "truthy (rowIsValid row) \<longleftrightarrow>
     definedNonZeroNotNaN (injections row) \<and> definedNonZeroNotNaN (pulseWidth row) \<and>
     definedNonZeroNotNaN (totalMass row)"
  by (rule truthy_rowIsValid)

theorem rowIsValid_iff_witness:
  "truthy (rowIsValid \<lparr>injections = Some (Fin 10), pulseWidth = Some (Fin 2),
      totalMass = Some (Fin (1 / 50)), includeInRegression = True, row_id = ''rowInput-0''\<rparr>)
   \<and> \<not> truthy (rowIsValid \<lparr>injections = Some NegZero, pulseWidth = Some (Fin 2),
      totalMass = Some (Fin (1 / 50)), includeInRegression = True, row_id = ''rowInput-0''\<rparr>)"
  using
    rowIsValid_iff [of "\<lparr>injections = Some (Fin 10), pulseWidth = Some (Fin 2),
      totalMass = Some (Fin (1 / 50)), includeInRegression = True, row_id = ''rowInput-0''\<rparr>"]
    rowIsValid_iff [of "\<lparr>injections = Some NegZero, pulseWidth = Some (Fin 2),
      totalMass = Some (Fin (1 / 50)), includeInRegression = True, row_id = ''rowInput-0''\<rparr>"]
  by (simp add: definedNonZeroNotNaN_def)

section \<open>Removing a row\<close>

lemma filter_enumerate_ne:
  "map snd (filter (\<lambda>(i, _). i \<noteq> index) (enumerate n rs)) =
     (if index < n then rs else take (index - n) rs @ drop (Suc (index - n)) rs)"
proof (induction rs arbitrary: n)
  case Nil
  then show ?case by simp
next
  case (Cons r rs)
  show ?case
  proof (cases "index < n")
    case True
    then show ?thesis using Cons.IH [of "Suc n"] by simp
  next
    case False
    show ?thesis
    proof (cases "index = n")
      case True
      then show ?thesis using Cons.IH [of "Suc n"] by simp
    next
      case ne: False
      with False have "Suc n \<le> index" by simp
      then have "index - n = Suc (index - Suc n)" by simp
      then show ?thesis using Cons.IH [of "Suc n"] False ne by simp
    qed
  qed
qed

lemma removeRow_take_drop:
  "removeRow index rs = take index rs @ drop (Suc index) rs"
  by (simp add: removeRow_def filter_enumerate_ne)

lemma length_removeRow: "index < length rs \<Longrightarrow> length (removeRow index rs) = length rs - 1"
  by (simp add: removeRow_take_drop)

text \<open>
  C10: \<open>removeRow\<close> at the index of a row deletes that row only. The rows before it and
  the rows after it are kept as they are (id, fields and inclusion flag), in their order.
\<close>

theorem removeRow_frame:
  assumes "index < length rs"
  shows "removeRow index rs = take index rs @ drop (Suc index) rs \<and>
         length (removeRow index rs) = length rs - 1 \<and>
         (\<forall>j < index. removeRow index rs ! j = rs ! j) \<and>
         (\<forall>j. index \<le> j \<and> j < length rs - 1 \<longrightarrow> removeRow index rs ! j = rs ! Suc j)"
proof (intro conjI allI impI)
  show "removeRow index rs = take index rs @ drop (Suc index) rs"
    by (rule removeRow_take_drop)
  show "length (removeRow index rs) = length rs - 1"
    using assms by (rule length_removeRow)
next
  fix j assume "j < index"
  then show "removeRow index rs ! j = rs ! j"
    using assms by (simp add: removeRow_take_drop nth_append)
next
  fix j assume j: "index \<le> j \<and> j < length rs - 1"
  then have "Suc index + (j - index) = Suc j" by simp
  then show "removeRow index rs ! j = rs ! Suc j"
    using assms j by (simp add: removeRow_take_drop nth_append min_def)
qed

theorem removeRow_frame_witness:
  "removeRow 0 [fst (makeRow 0), fst (makeRow 1)] = [fst (makeRow 1)]"
proof -
  have h: "0 < length [fst (makeRow 0), fst (makeRow 1)]" by simp
  from removeRow_frame [OF h] show ?thesis by simp
qed

section \<open>Events on the row store\<close>

lemma rows_addRow: "rows (addRow s) = rows s @ [fst (makeRow (nextId s))]"
  by (simp add: addRow_def makeRow_def)

lemma isLastRow_iff: "isLastRow index rs \<longleftrightarrow> rs \<noteq> [] \<and> index = length rs - 1"
  by (cases rs) (auto simp: isLastRow_def)

lemma fire_Some_index: "fire ev s = Some s' \<Longrightarrow> eventIndex ev < length (rows s)"
  by (simp add: fire_def split: if_splits)

lemma rows_click_last:
  assumes "fire (ClickButton index) s = Some s'" and "index = length (rows s) - 1"
  shows "rows s' = rows s @ [fst (makeRow (nextId s))]"
proof -
  have i: "index < length (rows s)" using assms(1) fire_Some_index by fastforce
  then have "isLastRow index (rows s)" using assms(2) by (auto simp: isLastRow_iff)
  then show ?thesis using assms(1) i by (auto simp: fire_def onClick_def rows_addRow)
qed

lemma rows_click_other:
  assumes "fire (ClickButton index) s = Some s'" and "index \<noteq> length (rows s) - 1"
  shows "rows s' = removeRow index (rows s)" and "length (rows s') = length (rows s) - 1"
proof -
  have i: "index < length (rows s)" using assms(1) fire_Some_index by fastforce
  have "\<not> isLastRow index (rows s)" using assms(2) by (auto simp: isLastRow_iff)
  then show "rows s' = removeRow index (rows s)"
    using assms(1) i by (auto simp: fire_def onClick_def)
  then show "length (rows s') = length (rows s) - 1"
    using i by (simp add: length_removeRow)
qed

lemma rows_click:
  assumes "fire (ClickButton index) s = Some s'"
  shows "if index = length (rows s) - 1 then rows s' = rows s @ [fst (makeRow (nextId s))]
         else rows s' = removeRow index (rows s) \<and> length (rows s') = length (rows s) - 1"
  using rows_click_last [OF assms] rows_click_other [OF assms] by simp

lemma fire_keeps_a_row:
  assumes "fire ev s = Some s'"
  shows "rows s' \<noteq> []"
proof -
  have i: "eventIndex ev < length (rows s)" using assms by (rule fire_Some_index)
  have h: "handle ev s = Some s'" using assms i by (simp add: fire_def)
  show ?thesis
  proof (cases ev)
    case (ClickButton k)
    show ?thesis
    proof (cases "k = length (rows s) - 1")
      case True
      then show ?thesis using rows_click_last [of k s s'] assms ClickButton by simp
    next
      case False
      then have "2 \<le> length (rows s)" using i ClickButton by simp
      moreover have "fire (ClickButton k) s = Some s'"
        using assms ClickButton by simp
      then have "length (rows s') = length (rows s) - 1"
        using False by (rule rows_click_other(2))
      ultimately show ?thesis by auto
    qed
  next
    case (BlurTotalMass k)
    then show ?thesis using h i by (auto simp: onBlur_def rows_addRow split: if_splits)
  qed (use h i in \<open>auto simp: setRows_def handleInputChange_def handleInclude_def split: if_splits\<close>)
qed

lemma run_keeps_a_row: "rows s \<noteq> [] \<Longrightarrow> run evs s = Some s' \<Longrightarrow> rows s' \<noteq> []"
proof (induction evs arbitrary: s)
  case Nil
  then show ?case by simp
next
  case (Cons ev evs)
  from Cons.prems(2) obtain s1 where f: "fire ev s = Some s1" and r: "run evs s1 = Some s'"
    by (auto split: option.splits)
  from f have "rows s1 \<noteq> []" by (rule fire_keeps_a_row)
  then show ?case using r by (rule Cons.IH)
qed

text \<open>
  C3 (as stated): removing the sole remaining row is a silent no-op. \<open>removeRow\<close> has no
  such guard: on the one row of the initial state it returns the empty list.
\<close>

theorem removeRow_sole_row_counterexample:
  "length (rows initialState) = 1 \<and> removeRow 0 (rows initialState) = []"
  by (simp add: initialState_def makeRow_def removeRow_take_drop)

text \<open>
  C3 (amended): \<open>removeRow\<close> deletes the row at a valid index whatever the number of
  rows. The rendered table offers the removal on every row but the last one, whose button
  adds a row instead; so no sequence of events of the table, from a state with at least
  one row, leaves the store without a row.
\<close>

theorem remove_keeps_a_row:
  "(\<forall>index. index < length (rows s) \<longrightarrow>
      length (removeRow index (rows s)) = length (rows s) - 1) \<and>
   (\<forall>index s'. fire (ClickButton index) s = Some s' \<longrightarrow>
      (if index = length (rows s) - 1 then rows s' = rows s @ [fst (makeRow (nextId s))]
       else rows s' = removeRow index (rows s) \<and> length (rows s') = length (rows s) - 1)) \<and>
   (\<forall>evs s'. rows s \<noteq> [] \<and> run evs s = Some s' \<longrightarrow> rows s' \<noteq> [])"
proof (intro conjI allI impI)
  fix index assume "index < length (rows s)"
  then show "length (removeRow index (rows s)) = length (rows s) - 1" by (rule length_removeRow)
next
  fix index s' assume "fire (ClickButton index) s = Some s'"
  then show "if index = length (rows s) - 1 then rows s' = rows s @ [fst (makeRow (nextId s))]
    else rows s' = removeRow index (rows s) \<and> length (rows s') = length (rows s) - 1"
    by (rule rows_click)
next
  fix evs s' assume "rows s \<noteq> [] \<and> run evs s = Some s'"
  then show "rows s' \<noteq> []" using run_keeps_a_row by blast
qed

theorem remove_keeps_a_row_witness:
  "rows initialState \<noteq> [] \<and>
   run [ClickButton 0, ClickButton 0] initialState = Some \<lparr>rows = [fst (makeRow 1)], nextId = 2\<rparr> \<and>
   rows \<lparr>rows = [fst (makeRow 1)], nextId = 2\<rparr> \<noteq> []"
proof -
  have n: "rows initialState \<noteq> []" by (simp add: initialState_def makeRow_def)
  have r: "run [ClickButton 0, ClickButton 0] initialState =
      Some \<lparr>rows = [fst (makeRow 1)], nextId = 2\<rparr>"
    by (simp add: initialState_def fire_def onClick_def isLastRow_def addRow_def makeRow_def
        removeRow_take_drop)
  from remove_keeps_a_row [of initialState] n r
  have "rows \<lparr>rows = [fst (makeRow 1)], nextId = 2\<rparr> \<noteq> []" by blast
  with n r show ?thesis by blast
qed








section \<open>The deadtime\<close>




section \<open>A row on the fitted line\<close>





section \<open>The degenerate fit\<close>

lemma signedInf_simps [simp]: "signedInf True = NInf" "signedInf False = PInf"
  by (simp_all add: signedInf_def)

lemma mean_single: "mean [x] = js_add (Fin 0) x"
  by (cases x) (simp_all add: mean_def js_sum_def js_add_def js_div_def finiteNum_def)

lemma deviation_single: "js_sub x (mean [x]) = NaN \<or> isZero (js_sub x (mean [x]))"
  by (cases x) (simp_all add: mean_single js_sub_def js_add_def finiteNum_def)

lemma js_mul_zeros:
  "a = NaN \<or> isZero a \<Longrightarrow> b = NaN \<or> isZero b \<Longrightarrow> js_mul a b = NaN \<or> isZero (js_mul a b)"
  by (cases a; cases b) (auto simp: js_mul_def)

lemma js_add_zero_left:
  "a = NaN \<or> isZero a \<Longrightarrow> js_add (Fin 0) a = NaN \<or> isZero (js_add (Fin 0) a)"
  by (cases a) (auto simp: js_add_def)

lemma js_div_zeros: "a = NaN \<or> isZero a \<Longrightarrow> b = NaN \<or> isZero b \<Longrightarrow> js_div a b = NaN"
  by (cases a; cases b) (auto simp: js_div_def)

lemma linear_Nil: "equation (linear []) = (NaN, NaN)"
  by (simp add: linear_def mean_def js_sum_def fitLine_def js_div_def)

lemma linear_single: "equation (linear [(x, y)]) = (NaN, NaN)"
proof -
  let ?dx = "js_sub x (mean [x])" and ?dy = "js_sub y (mean [y])"
  have sxy: "js_sum [js_mul ?dx ?dy] = NaN \<or> isZero (js_sum [js_mul ?dx ?dy])"
    unfolding js_sum_def
    using js_add_zero_left [OF js_mul_zeros [OF deviation_single deviation_single]] by simp
  have sxx: "js_sum [js_mul ?dx ?dx] = NaN \<or> isZero (js_sum [js_mul ?dx ?dx])"
    unfolding js_sum_def
    using js_add_zero_left [OF js_mul_zeros [OF deviation_single deviation_single]] by simp
  have "js_div (js_sum [js_mul ?dx ?dy]) (js_sum [js_mul ?dx ?dx]) = NaN"
    using sxy sxx by (rule js_div_zeros)
  then show ?thesis by (simp add: linear_def Let_def fitLine_def)
qed

lemma linear_degenerate:
  assumes "length pts \<le> 1"
  shows "equation (linear pts) = (NaN, NaN)" and "snd (predict (linear pts) x) = NaN"
proof -
  show e: "equation (linear pts) = (NaN, NaN)"
  proof (cases pts)
    case Nil
    then show ?thesis by (simp add: linear_Nil)
  next
    case (Cons p ps)
    with assms have "ps = []" by simp
    with Cons show ?thesis by (cases p) (simp add: linear_single)
  qed
  have "predict (linear pts) x =
      (x, js_add (js_mul (fst (equation (linear pts))) x) (snd (equation (linear pts))))"
    by (simp add: linear_def Let_def fitLine_def)
  then show "snd (predict (linear pts) x) = NaN" using e by simp
qed

text \<open>
  C5: with at most one valid included row, the fit has NaN for slope and intercept, the
  deadtime is NaN, the percent error of every valid row is NaN and the percent error
  cell of every row of the table is empty. Every function involved is total: nothing is
  thrown.
\<close>

theorem degenerate_fit:
  assumes "length (regressionInput rs) \<le> 1"
  shows "equation (regressionResult rs) = (NaN, NaN) \<and>
         deadtime (regressionResult rs) = NaN \<and>
         (\<forall>p \<in> set (dataForPlot (regressionResult rs) rs). err p = NaN) \<and>
         (\<forall>t \<in> set (tableRows big (regressionResult rs) rs). errCell t = [])"
proof -
  have e: "equation (regressionResult rs) = (NaN, NaN)"
    and p: "\<And>x. snd (predict (regressionResult rs) x) = NaN"
    using assms by (simp_all add: regressionResult_def linear_degenerate)
  have "deadtime (regressionResult rs) = NaN" using e by (simp add: deadtime_def)
  moreover have "\<forall>p \<in> set (dataForPlot (regressionResult rs) rs). err p = NaN"
    using p by (auto simp: dataForPlot_def plotPoint_def Let_def)
  moreover have "\<forall>t \<in> set (tableRows big (regressionResult rs) rs). errCell t = []"
    using p by (auto simp: tableRows_def tableRow_def Let_def formatRowValue_def isNaN_def)
  ultimately show ?thesis using e by simp
qed

theorem degenerate_fit_witness:
  "length (regressionInput (take 1 scenarioRows)) \<le> 1 \<and>
   regressionInput (take 1 scenarioRows) = [(Fin 2, Fin 2)] \<and>
   equation (regressionResult (take 1 scenarioRows)) = (NaN, NaN) \<and>
   deadtime (regressionResult (take 1 scenarioRows)) = NaN \<and>
   list_all (\<lambda>p. err p = NaN)
     (dataForPlot (regressionResult (take 1 scenarioRows)) (take 1 scenarioRows)) \<and>
   list_all (\<lambda>t. errCell t = [])
     (tableRows (\<lambda>q. []) (regressionResult (take 1 scenarioRows)) (take 1 scenarioRows)) \<and>
   length (dataForPlot (regressionResult (take 1 scenarioRows)) (take 1 scenarioRows)) = 1"
proof -
  have i: "regressionInput (take 1 scenarioRows) = [(Fin 2, Fin 2)]"
    by (simp add: scenarioRows_def regressionInput_def validRows_def rowIsValid_def js_and_def
        isNaN_def cleaned_def regressionPoint_def js_mul_Fin js_div_Fin)
  then have h: "length (regressionInput (take 1 scenarioRows)) \<le> 1" by simp
  have l: "length (dataForPlot (regressionResult (take 1 scenarioRows)) (take 1 scenarioRows)) = 1"
    by (simp add: scenarioRows_def dataForPlot_def validRows_def rowIsValid_def js_and_def
        isNaN_def)
  show ?thesis
    using degenerate_fit [OF h, of "\<lambda>q. []"] h i l by (simp add: list_all_iff)
qed

section \<open>The end-to-end scenario\<close>

lemma scenario_input: "regressionInput scenarioRows = [(Fin 2, Fin 2), (Fin 4, Fin 6)]"
  by (simp add: scenarioRows_def regressionInput_def validRows_def rowIsValid_def js_and_def
      isNaN_def cleaned_def regressionPoint_def js_mul_Fin js_div_Fin)

lemma scenario_fit: "regressionResult scenarioRows = fitLine (Fin 2) (Fin (- 2))"
  by (simp add: regressionResult_def scenario_input linear_def mean_def js_sum_def
      js_add_Fin js_sub_Fin js_mul_Fin js_div_Fin)

lemma scenario_masses: "map massPerPulse (dataForPlot fit scenarioRows) = [Fin 2, Fin 6]"
  by (simp add: scenarioRows_def dataForPlot_def validRows_def rowIsValid_def js_and_def
      isNaN_def cleaned_def plotPoint_def Let_def js_mul_Fin js_div_Fin)

lemma scenario_cc_text: "flowRateCcText big (fitLine (Fin 2) (Fin (- 2))) = ''166.7''"
  by code_simp

text \<open>
  C1: for the two rows of the scenario, both valid and included, the masses per pulse are
  2 and 6 mg, the fitted slope is 2 and the intercept -2, the deadtime is 1 ms, and the
  flow rate in cc/min is \<open>83.333 * 2\<close>, shown as 166.7.
\<close>

theorem end_to_end:
  "map massPerPulse (dataForPlot (regressionResult scenarioRows) scenarioRows) = [Fin 2, Fin 6] \<and>
   equation (regressionResult scenarioRows) = (Fin 2, Fin (- 2)) \<and>
   deadtime (regressionResult scenarioRows) = Fin 1 \<and>
   flowRateCcPerMin (regressionResult scenarioRows) = Fin (83333 / 1000 * 2) \<and>
   flowRateCcText big (regressionResult scenarioRows) = ''166.7''"
  by (simp add: scenario_masses scenario_fit scenario_cc_text)
     (simp add: fitLine_def deadtime_def flowRate_def flowRateCcPerMin_def js_mul_Fin js_div_Fin
        finiteNum_def)

section \<open>The input of the regression and the metrics of a row\<close>

lemma plotPoint_cleaned [simp]: "plotPoint fit (cleaned r) = plotPoint fit r"
  by (simp add: plotPoint_def cleaned_def)

lemma regressionInput_spec: "regressionInput rs = fitInput_spec rs"
  by (induction rs)
     (simp_all add: regressionInput_def validRows_def fitInput_spec_def massPerPulseMg_def
       regressionPoint_def cleaned_def)

lemma valid_in_dataForPlot:
  "r \<in> set rs \<Longrightarrow> truthy (rowIsValid r) \<Longrightarrow> plotPoint fit r \<in> set (dataForPlot fit rs)"
  by (force simp: dataForPlot_def validRows_def)

lemma tableRows_nth:
  "i < length rs \<Longrightarrow> tableRows big fit rs ! i = tableRow big fit rs i (rs ! i)"
  by (simp add: tableRows_def nth_enumerate_eq)

lemma tableRow_cells:
  "massCell (tableRow big fit rs i r) = formatRowValue big (Some (massPerPulseMg r))"
  "modelCell (tableRow big fit rs i r) = formatRowValue big (Some (modelMass (plotPoint fit r)))"
  "errCell (tableRow big fit rs i r) = formatRowValue big (Some (err (plotPoint fit r)))"
  by (simp_all add: tableRow_def plotPoint_def massPerPulseMg_def Let_def)

text \<open>
  C9: the input of the regression is the list of the pairs of pulse width and mass per
  pulse of the rows that are valid and included, in their order. Every valid row,
  included or not, has its metrics among the plotted data, and its row of the table
  shows its mass per pulse, its modelled mass and its percent error.
\<close>

theorem fit_uses_included_rows:
  "regressionInput rs = fitInput_spec rs \<and>
   (\<forall>i < length rs. truthy (rowIsValid (rs ! i)) \<longrightarrow>
      plotPoint fit (rs ! i) \<in> set (dataForPlot fit rs) \<and>
      massCell (tableRows big fit rs ! i) = formatRowValue big (Some (massPerPulseMg (rs ! i))) \<and>
      modelCell (tableRows big fit rs ! i) =
        formatRowValue big (Some (modelMass (plotPoint fit (rs ! i)))) \<and>
      errCell (tableRows big fit rs ! i) =
        formatRowValue big (Some (err (plotPoint fit (rs ! i)))))"
  by (simp add: regressionInput_spec valid_in_dataForPlot tableRows_nth tableRow_cells)

theorem fit_uses_included_rows_witness:
  "regressionInput scenarioSecondExcluded = [(Fin 2, Fin 2)] \<and>
   1 < length scenarioSecondExcluded \<and>
   truthy (rowIsValid (scenarioSecondExcluded ! 1)) \<and>
   \<not> includeInRegression (scenarioSecondExcluded ! 1) \<and>
   plotPoint (fitLine (Fin 2) (Fin (- 2))) (scenarioSecondExcluded ! 1)
     \<in> set (dataForPlot (fitLine (Fin 2) (Fin (- 2))) scenarioSecondExcluded) \<and>
   massCell (tableRows (\<lambda>q. []) (fitLine (Fin 2) (Fin (- 2))) scenarioSecondExcluded ! 1) =
     formatRowValue (\<lambda>q. []) (Some (massPerPulseMg (scenarioSecondExcluded ! 1))) \<and>
   modelCell (tableRows (\<lambda>q. []) (fitLine (Fin 2) (Fin (- 2))) scenarioSecondExcluded ! 1) =
     formatRowValue (\<lambda>q. [])
       (Some (modelMass (plotPoint (fitLine (Fin 2) (Fin (- 2))) (scenarioSecondExcluded ! 1)))) \<and>
   errCell (tableRows (\<lambda>q. []) (fitLine (Fin 2) (Fin (- 2))) scenarioSecondExcluded ! 1) =
     formatRowValue (\<lambda>q. [])
       (Some (err (plotPoint (fitLine (Fin 2) (Fin (- 2))) (scenarioSecondExcluded ! 1)))) \<and>
   massCell (tableRows (\<lambda>q. []) (fitLine (Fin 2) (Fin (- 2))) scenarioSecondExcluded ! 1) =
     ''6.0''"
proof -
  have i: "fitInput_spec scenarioSecondExcluded = [(Fin 2, Fin 2)]"
    by code_simp
  have l: "1 < length scenarioSecondExcluded"
    by (simp add: scenarioSecondExcluded_def)
  have v: "truthy (rowIsValid (scenarioSecondExcluded ! 1))"
    by code_simp
  have e: "\<not> includeInRegression (scenarioSecondExcluded ! 1)"
    by (simp add: scenarioSecondExcluded_def)
  have c: "formatRowValue (\<lambda>q. []) (Some (massPerPulseMg (scenarioSecondExcluded ! 1))) = ''6.0''"
    by code_simp
  from fit_uses_included_rows [of scenarioSecondExcluded "fitLine (Fin 2) (Fin (- 2))" "\<lambda>q. []"]
    i l v e c
  show ?thesis by simp
qed

section \<open>Formatting\<close>

lemma digitValue_digitChar: "digitValue (digitChar n) = n mod 10"
proof -
  have "k < 10 \<Longrightarrow> digitValue (''0123456789'' ! k) = k" for k
    by (auto simp: less_Suc_eq numeral_eq_Suc digitValue_def)
  then show ?thesis by simp
qed

lemma isDigit_digitChar: "isDigit (digitChar n)"
proof -
  have "k < 10 \<Longrightarrow> isDigit (''0123456789'' ! k)" for k
    unfolding isDigit_def by (rule nth_mem) simp
  then show ?thesis by simp
qed

lemma decimalValue_snoc: "decimalValue (s @ [c]) = 10 * decimalValue s + digitValue c"
  by (simp add: decimalValue_def)

lemma decimalValue_decimal: "decimalValue (decimal n) = n"
proof (induction n rule: decimal.induct)
  case (1 n)
  show ?case
  proof (cases "n < 10")
    case True
    then show ?thesis
      by (subst decimal.simps) (simp add: decimalValue_def digitValue_digitChar del: digitChar.simps)
  next
    case False
    then show ?thesis
      using 1 by (subst decimal.simps)
        (simp add: decimalValue_snoc digitValue_digitChar del: digitChar.simps)
  qed
qed

lemma digits_decimal: "list_all isDigit (decimal n)"
proof (induction n rule: decimal.induct)
  case (1 n)
  show ?case
    using 1 by (subst decimal.simps) (simp add: isDigit_digitChar del: digitChar.simps)
qed

lemma decimal_nonempty: "decimal n \<noteq> []"
  by (subst decimal.simps) simp

lemma digitValue_zero: "digitValue CHR ''0'' = 0"
  by (simp add: digitValue_def)

lemma decimalValue_zeros: "decimalValue (replicate k CHR ''0'' @ m) = decimalValue m"
proof -
  have "foldl (\<lambda>a c. 10 * a + digitValue c) 0 (replicate k CHR ''0'') = 0"
    by (induction k) (simp_all add: digitValue_zero)
  then show ?thesis by (simp add: decimalValue_def)
qed


lemma nearestScaled_close:
  assumes "0 \<le> x"
  shows "\<bar>of_nat (nearestScaled f x) / 10 ^ f - x\<bar> \<le> 1 / (2 * 10 ^ f)"
proof -
  define y where "y = x * 10 ^ f"
  have y0: "0 \<le> y" using assms by (simp add: y_def)
  then have "0 \<le> \<lfloor>y + 1 / 2\<rfloor>" by simp
  then have n: "(of_nat (nearestScaled f x) :: rat) = of_int \<lfloor>y + 1 / 2\<rfloor>"
    by (simp add: nearestScaled_def y_def)
  have "of_int \<lfloor>y + 1 / 2\<rfloor> \<le> y + 1 / 2" "y + 1 / 2 < of_int \<lfloor>y + 1 / 2\<rfloor> + 1"
    by linarith+
  then have "\<bar>of_int \<lfloor>y + 1 / 2\<rfloor> - y\<bar> \<le> 1 / 2" by linarith
  then have "\<bar>of_int \<lfloor>y + 1 / 2\<rfloor> - y\<bar> / 10 ^ f \<le> (1 / 2) / 10 ^ f"
    by (rule divide_right_mono) simp
  moreover have "of_int \<lfloor>y + 1 / 2\<rfloor> / 10 ^ f - x = (of_int \<lfloor>y + 1 / 2\<rfloor> - y) / 10 ^ f"
    by (simp add: y_def diff_divide_distrib)
  then have "\<bar>of_int \<lfloor>y + 1 / 2\<rfloor> / 10 ^ f - x\<bar> = \<bar>of_int \<lfloor>y + 1 / 2\<rfloor> - y\<bar> / 10 ^ f"
    by (simp only: abs_divide) simp
  ultimately show ?thesis using n by simp
qed


lemma isDigit_zero: "isDigit CHR ''0''"
  by (simp add: isDigit_def)

lemma fixedDigits_split:
  assumes "0 < f"
  shows "\<exists>A B. fixedDigits f x = A @ CHR ''.'' # B \<and> A \<noteq> [] \<and> length B = f \<and>
           list_all isDigit (A @ B) \<and> decimalValue (A @ B) = nearestScaled f x"
proof -
  define m where "m = decimal (nearestScaled f x)"
  define m' where "m' = (if length m \<le> f then replicate (f + 1 - length m) CHR ''0'' @ m else m)"
  define k where "k = length m'"
  have kf: "f < k" by (simp add: k_def m'_def)
  have dig: "list_all isDigit m'"
    by (simp add: m'_def m_def digits_decimal list_all_iff isDigit_zero)
      (metis digits_decimal list_all_iff)
  have val: "decimalValue m' = nearestScaled f x"
    by (simp add: m'_def m_def decimalValue_zeros decimalValue_decimal)
  have fd: "fixedDigits f x = take (k - f) m' @ CHR ''.'' # drop (k - f) m'"
    using assms by (simp add: fixedDigits_def Let_def m_def m'_def k_def)
  have "take (k - f) m' \<noteq> []" using kf by (auto simp: k_def)
  moreover have "length (drop (k - f) m') = f" using kf by (simp add: k_def)
  ultimately show ?thesis using fd dig val
    by (intro exI [of _ "take (k - f) m'"] exI [of _ "drop (k - f) m'"]) simp
qed

lemma roundedTo_fixedDigits:
  assumes "0 < f" "s = (if x < 0 then ''-'' else []) @ fixedDigits f \<bar>x\<bar>"
  shows "roundedTo f x s"
proof -
  obtain A B where fd: "fixedDigits f \<bar>x\<bar> = A @ CHR ''.'' # B" and A: "A \<noteq> []"
    and B: "length B = f" and dig: "list_all isDigit (A @ B)"
    and val: "decimalValue (A @ B) = nearestScaled f \<bar>x\<bar>"
    using fixedDigits_split [OF assms(1)] by blast
  define body where "body = A @ CHR ''.'' # B"
  have body: "(if x < 0 then tl s else s) = body" using assms(2) fd by (simp add: body_def)
  have len: "length body - f = Suc (length A)" using B by (simp add: body_def)
  have ds: "take (length body - f - 1) body @ drop (length body - f) body = A @ B"
    unfolding len by (simp add: body_def)
  have pt: "body ! (length body - f - 1) = CHR ''.''"
    unfolding len by (simp add: body_def)
  have l2: "f + 2 \<le> length body" using A B by (cases A) (simp_all add: body_def)
  have cl: "\<bar>of_nat (decimalValue (A @ B)) / 10 ^ f - \<bar>x\<bar>\<bar> \<le> 1 / (2 * 10 ^ f)"
    unfolding val by (rule nearestScaled_close) simp
  have s: "s = (if x < 0 then ''-'' else []) @ body" using assms(2) fd by (simp add: body_def)
  show ?thesis
    unfolding roundedTo_def Let_def body ds pt using s l2 dig cl by simp
qed

lemma roundedTo_toFixed:
  assumes "0 < f" "isFinite x" "\<bar>valof x\<bar> < 10 ^ 21"
  shows "roundedTo f (valof x) (toFixed big f x)"
  using assms by (cases x) (auto intro!: roundedTo_fixedDigits)


text \<open>
  C8 (as stated): every finite value is shown with one decimal, the values of the small
  pulse table with three. The deadtime of the summary is shown with two decimals: a
  deadtime of 1 ms is shown as \<open>1.00\<close>.
\<close>

theorem deadtime_two_decimals_counterexample:
  "deadtime (fitLine (Fin 2) (Fin (- 2))) = Fin 1 \<and>
   deadtimeText (\<lambda>q. []) (fitLine (Fin 2) (Fin (- 2))) = ''1.00'' \<and>
   \<not> roundedTo 1 1 ''1.00''"
  by code_simp

text \<open>
  C8 (amended): \<open>formatRowValue\<close>, which prints the computed cells of the table, gives
  the empty string for \<open>undefined\<close> and for NaN, and shows a finite value of magnitude
  below \<open>10^21\<close> rounded to one decimal. Of such values the summary shows the flow rate
  in g/s and the deadtime rounded to two decimals and the flow rate in cc/min rounded to
  one, and the small pulse table shows its values rounded to three decimals. Formatting
  is a function of the value and changes nothing stored.
\<close>

theorem display_rounding:
  "formatRowValue big None = [] \<and> formatRowValue big (Some NaN) = [] \<and>
   (isFinite x \<and> \<bar>valof x\<bar> < 10 ^ 21 \<longrightarrow>
      roundedTo 1 (valof x) (formatRowValue big (Some x))) \<and>
   (isFinite (flowRate fit) \<and> \<bar>valof (flowRate fit)\<bar> < 10 ^ 21 \<longrightarrow>
      roundedTo 2 (valof (flowRate fit)) (flowRateText big fit)) \<and>
   (isFinite (flowRateCcPerMin fit) \<and> \<bar>valof (flowRateCcPerMin fit)\<bar> < 10 ^ 21 \<longrightarrow>
      roundedTo 1 (valof (flowRateCcPerMin fit)) (flowRateCcText big fit)) \<and>
   (isFinite (deadtime fit) \<and> \<bar>valof (deadtime fit)\<bar> < 10 ^ 21 \<longrightarrow>
      roundedTo 2 (valof (deadtime fit)) (deadtimeText big fit)) \<and>
   (\<forall>i < length ps.
      isFinite (smallPulseAdder (ps ! i)) \<and> \<bar>valof (smallPulseAdder (ps ! i))\<bar> < 10 ^ 21 \<longrightarrow>
      roundedTo 3 (valof (smallPulseAdder (ps ! i))) (smallPulseAdderCells big ps ! i)) \<and>
   (\<forall>i < length ps.
      isFinite (modelPulse (ps ! i)) \<and> \<bar>valof (modelPulse (ps ! i))\<bar> < 10 ^ 21 \<longrightarrow>
      roundedTo 3 (valof (modelPulse (ps ! i))) (modelPulseCells big ps ! i))"
proof -
  have "isFinite x \<Longrightarrow> formatRowValue big (Some x) = toFixed big 1 x"
    by (cases x) (simp_all add: formatRowValue_def isNaN_def)
  then have "isFinite x \<and> \<bar>valof x\<bar> < 10 ^ 21 \<longrightarrow>
      roundedTo 1 (valof x) (formatRowValue big (Some x))"
    by (simp add: roundedTo_toFixed)
  then show ?thesis
    by (simp add: formatRowValue_def isNaN_def flowRateText_def flowRateCcText_def
        deadtimeText_def smallPulseAdderCells_def modelPulseCells_def roundedTo_toFixed)
qed

theorem display_rounding_witness:
  "isFinite (Fin 2) \<and> \<bar>valof (Fin 2)\<bar> < 10 ^ 21 \<and>
   roundedTo 1 (valof (Fin 2)) (formatRowValue (\<lambda>q. []) (Some (Fin 2))) \<and>
   isFinite (flowRate (fitLine (Fin 2) (Fin (- 2)))) \<and>
   \<bar>valof (flowRate (fitLine (Fin 2) (Fin (- 2))))\<bar> < 10 ^ 21 \<and>
   roundedTo 2 (valof (flowRate (fitLine (Fin 2) (Fin (- 2)))))
     (flowRateText (\<lambda>q. []) (fitLine (Fin 2) (Fin (- 2)))) \<and>
   isFinite (flowRateCcPerMin (fitLine (Fin 2) (Fin (- 2)))) \<and>
   \<bar>valof (flowRateCcPerMin (fitLine (Fin 2) (Fin (- 2))))\<bar> < 10 ^ 21 \<and>
   roundedTo 1 (valof (flowRateCcPerMin (fitLine (Fin 2) (Fin (- 2)))))
     (flowRateCcText (\<lambda>q. []) (fitLine (Fin 2) (Fin (- 2)))) \<and>
   isFinite (deadtime (fitLine (Fin 2) (Fin (- 2)))) \<and>
   \<bar>valof (deadtime (fitLine (Fin 2) (Fin (- 2))))\<bar> < 10 ^ 21 \<and>
   roundedTo 2 (valof (deadtime (fitLine (Fin 2) (Fin (- 2)))))
     (deadtimeText (\<lambda>q. []) (fitLine (Fin 2) (Fin (- 2)))) \<and>
   1 < length (dataForPlot (fitLine (Fin 2) (Fin (- 2))) scenarioRows) \<and>
   isFinite (smallPulseAdder (dataForPlot (fitLine (Fin 2) (Fin (- 2))) scenarioRows ! 1)) \<and>
   \<bar>valof (smallPulseAdder (dataForPlot (fitLine (Fin 2) (Fin (- 2))) scenarioRows ! 1))\<bar>
     < 10 ^ 21 \<and>
   roundedTo 3 (valof (smallPulseAdder (dataForPlot (fitLine (Fin 2) (Fin (- 2))) scenarioRows ! 1)))
     (smallPulseAdderCells (\<lambda>q. []) (dataForPlot (fitLine (Fin 2) (Fin (- 2))) scenarioRows) ! 1) \<and>
   isFinite (modelPulse (dataForPlot (fitLine (Fin 2) (Fin (- 2))) scenarioRows ! 1)) \<and>
   \<bar>valof (modelPulse (dataForPlot (fitLine (Fin 2) (Fin (- 2))) scenarioRows ! 1))\<bar>
     < 10 ^ 21 \<and>
   roundedTo 3 (valof (modelPulse (dataForPlot (fitLine (Fin 2) (Fin (- 2))) scenarioRows ! 1)))
     (modelPulseCells (\<lambda>q. []) (dataForPlot (fitLine (Fin 2) (Fin (- 2))) scenarioRows) ! 1) \<and>
   modelPulseCells (\<lambda>q. []) (dataForPlot (fitLine (Fin 2) (Fin (- 2))) scenarioRows) =
     [''1.000'', ''3.000'']"
proof -
  have h1: "isFinite (Fin 2) \<and> \<bar>valof (Fin 2)\<bar> < 10 ^ 21" by simp
  have h2: "isFinite (flowRate (fitLine (Fin 2) (Fin (- 2)))) \<and>
      \<bar>valof (flowRate (fitLine (Fin 2) (Fin (- 2))))\<bar> < 10 ^ 21"
    by code_simp
  have h3: "isFinite (flowRateCcPerMin (fitLine (Fin 2) (Fin (- 2)))) \<and>
      \<bar>valof (flowRateCcPerMin (fitLine (Fin 2) (Fin (- 2))))\<bar> < 10 ^ 21"
    by code_simp
  have h4: "isFinite (deadtime (fitLine (Fin 2) (Fin (- 2)))) \<and>
      \<bar>valof (deadtime (fitLine (Fin 2) (Fin (- 2))))\<bar> < 10 ^ 21"
    by code_simp
  have h5: "1 < length (dataForPlot (fitLine (Fin 2) (Fin (- 2))) scenarioRows)"
    by code_simp
  have h6: "isFinite (smallPulseAdder (dataForPlot (fitLine (Fin 2) (Fin (- 2))) scenarioRows ! 1)) \<and>
      \<bar>valof (smallPulseAdder (dataForPlot (fitLine (Fin 2) (Fin (- 2))) scenarioRows ! 1))\<bar>
        < 10 ^ 21"
    by code_simp
  have h7: "isFinite (modelPulse (dataForPlot (fitLine (Fin 2) (Fin (- 2))) scenarioRows ! 1)) \<and>
      \<bar>valof (modelPulse (dataForPlot (fitLine (Fin 2) (Fin (- 2))) scenarioRows ! 1))\<bar>
        < 10 ^ 21"
    by code_simp
  have h8: "modelPulseCells (\<lambda>q. []) (dataForPlot (fitLine (Fin 2) (Fin (- 2))) scenarioRows) =
     [''1.000'', ''3.000'']"
    by code_simp
  from display_rounding [of "\<lambda>q. []" "Fin 2" "fitLine (Fin 2) (Fin (- 2))"
      "dataForPlot (fitLine (Fin 2) (Fin (- 2))) scenarioRows"] h1 h2 h3 h4 h5 h6 h7 h8
  show ?thesis by blast
qed

end
